theory Spec2Isabelle
  imports Complex_Main "HOL-Library.Word" "HOL-Library.Log_Nat"
begin

section \<open>The calculator programs \<open>test.c\<close> and \<open>test2.c\<close>\<close>

text \<open>
  Both files are a single \<open>main\<close>: two \<open>scanf("%d", ...)\<close> calls, three \<open>int\<close>
  computations, one guarded \<open>float\<close> division, and a block of \<open>printf\<close> calls.
  The embedding keeps that shape. Each C statement is a function from the program state
  to either an undefined-behaviour marker or the next state, and \<open>main\<close> is the list of
  its statements in source order.
\<close>

subsection \<open>\<open>int\<close> and its decimal rendering (\<open>%d\<close>)\<close>

text \<open>
  \<open>int\<close> is a 32-bit two's complement integer; \<open>sint\<close> reads its value. ISO C leaves
  signed overflow undefined; the model takes what the 32-bit target computes, the result
  reduced modulo \<open>2^32\<close>, which is what \<open>+\<close>, \<open>-\<close> and \<open>*\<close> on words do.
\<close>

type_synonym int32 = "32 word"

definition digit_char :: "nat \<Rightarrow> char" where
  "digit_char d = ''0123456789'' ! d"

fun show_nat :: "nat \<Rightarrow> string" where
  "show_nat n = (if n < 10 then [digit_char n] else show_nat (n div 10) @ [digit_char (n mod 10)])"

declare show_nat.simps [simp del]

definition show_int :: "int \<Rightarrow> string" where
  "show_int i = (if i < 0 then CHR ''-'' # show_nat (nat (- i)) else show_nat (nat i))"

subsection \<open>\<open>float\<close>: IEEE 754 binary32, round to nearest even\<close>

text \<open>
  A \<open>float\<close> is a sign and a magnitude, an infinity, or a NaN. The magnitude is the exact
  rational the bit pattern denotes. Every operation computes the exact rational result
  and rounds it once: to 24 significant bits, to a multiple of \<open>2^-149\<close> in the subnormal
  range, ties to the even significand, and to infinity from \<open>2^128\<close> on.
  \<open>rne\<close> is the rounding to the nearest integer, \<open>ilog2\<close> the binary exponent of a
  positive number, and \<open>f32_round\<close> the rounding of a magnitude, which is never negative.
\<close>

datatype f32 = Finite bool rat | Infinity bool | NaN

definition rne :: "rat \<Rightarrow> int" where
  "rne x = (let f = \<lfloor>x\<rfloor>; d = x - of_int f in
     if d < 1 / 2 then f else if 1 / 2 < d then f + 1 else if even f then f else f + 1)"

definition ilog2 :: "rat \<Rightarrow> int" where
  "ilog2 x = (if 1 \<le> x then bitlen \<lfloor>x\<rfloor> - 1 else - bitlen (\<lceil>1 / x\<rceil> - 1))"

definition f32_round :: "bool \<Rightarrow> rat \<Rightarrow> f32" where
  "f32_round s x =
     (if x = 0 then Finite s 0
      else let ulp = 2 powi (max (ilog2 x - 23) (- 149));
               y = of_int (rne (x / ulp)) * ulp
           in if 2 powi 128 \<le> y then Infinity s else Finite s y)"

text \<open>The conversion \<open>(float)n\<close> of an \<open>int\<close>, explicit or by the usual arithmetic conversions.\<close>

definition int_to_float :: "int32 \<Rightarrow> f32" where
  "int_to_float n = f32_round (sint n < 0) (of_int \<bar>sint n\<bar>)"

text \<open>The \<open>float\<close> division \<open>x / y\<close>.\<close>

fun fdiv :: "f32 \<Rightarrow> f32 \<Rightarrow> f32" where
  "fdiv NaN y = NaN"
| "fdiv x NaN = NaN"
| "fdiv (Infinity s) (Infinity t) = NaN"
| "fdiv (Infinity s) (Finite t m) = Infinity (s \<noteq> t)"
| "fdiv (Finite s m) (Infinity t) = Finite (s \<noteq> t) 0"
| "fdiv (Finite s m) (Finite t k) =
     (if k = 0 then (if m = 0 then NaN else Infinity (s \<noteq> t))
      else f32_round (s \<noteq> t) (m / k))"

text \<open>The value of a finite \<open>float\<close> as a rational number.\<close>

fun f32_value :: "f32 \<Rightarrow> rat option" where
  "f32_value (Finite s m) = Some (if s then - m else m)"
| "f32_value (Infinity s) = None"
| "f32_value NaN = None"

text \<open>
  \<open>%.2f\<close>: the argument, promoted to \<open>double\<close> without change of value, is printed with
  two decimals, the exact value rounded to the nearest hundredth, ties to even.
\<close>

fun show_f2 :: "f32 \<Rightarrow> string" where
  "show_f2 (Finite s m) =
     (let n = nat (rne (m * 100))
      in (if s then ''-'' else '''') @ show_nat (n div 100) @ ''.'' @
         [digit_char (n mod 100 div 10), digit_char (n mod 10)])"
| "show_f2 (Infinity s) = (if s then ''-'' else '''') @ ''inf''"
| "show_f2 NaN = ''nan''"

declare show_f2.simps [simp del]

subsection \<open>Statements and expressions\<close>

text \<open>
  A local variable holds \<open>None\<close> until it is assigned: the declarations
  \<open>int num1, num2; int sum, difference, product; float quotient;\<close> have no initialisers.
  Reading such a variable is undefined behaviour, and so is a \<open>printf\<close> whose
  conversions do not match its arguments; both end the run with \<open>Inl\<close>.
\<close>

datatype ub = UninitRead string | BadFormat

type_synonym ('s, 'v) expr = "'s \<Rightarrow> ub + 'v"
type_synonym 's stmt = "'s \<Rightarrow> ub + 's"

definition var :: "string \<Rightarrow> ('s \<Rightarrow> 'v option) \<Rightarrow> ('s, 'v) expr" where
  "var x get s = (case get s of None \<Rightarrow> Inl (UninitRead x) | Some v \<Rightarrow> Inr v)"

definition lit :: "'v \<Rightarrow> ('s, 'v) expr" where
  "lit c s = Inr c"

definition unop :: "('a \<Rightarrow> 'b) \<Rightarrow> ('s, 'a) expr \<Rightarrow> ('s, 'b) expr" where
  "unop f e s = (case e s of Inl u \<Rightarrow> Inl u | Inr v \<Rightarrow> Inr (f v))"

definition binop :: "('a \<Rightarrow> 'b \<Rightarrow> 'c) \<Rightarrow> ('s, 'a) expr \<Rightarrow> ('s, 'b) expr \<Rightarrow> ('s, 'c) expr" where
  "binop f e1 e2 s =
     (case e1 s of Inl u \<Rightarrow> Inl u
      | Inr v1 \<Rightarrow> (case e2 s of Inl u \<Rightarrow> Inl u | Inr v2 \<Rightarrow> Inr (f v1 v2)))"

definition assign :: "(('v option \<Rightarrow> 'v option) \<Rightarrow> 's \<Rightarrow> 's) \<Rightarrow> ('s, 'v) expr \<Rightarrow> 's stmt" where
  "assign upd e s = (case e s of Inl u \<Rightarrow> Inl u | Inr v \<Rightarrow> Inr (upd (\<lambda>_. Some v) s))"

fun block :: "'s stmt list \<Rightarrow> 's stmt" where
  "block [] s = Inr s"
| "block (c # cs) s = (case c s of Inl u \<Rightarrow> Inl u | Inr s' \<Rightarrow> block cs s')"

definition if_else :: "('s, bool) expr \<Rightarrow> 's stmt \<Rightarrow> 's stmt \<Rightarrow> 's stmt" where
  "if_else c t e s =
     (case c s of Inl u \<Rightarrow> Inl u | Inr b \<Rightarrow> if b then t s else e s)"

subsection \<open>The process: standard input, standard output, and the locals both programs share\<close>

text \<open>
  Standard input is the sequence of integers that successive \<open>scanf("%d", ...)\<close> calls
  convert, each within the range of \<open>int\<close>; at its end (end of file, or text that is no
  integer) the call stores nothing and leaves its variable as it was.
  Standard output is the sequence of texts written, one element for each \<open>printf\<close> call.
\<close>

record process =
  stdin :: "int32 list"
  stdout :: "string list"
  num1 :: "int32 option"
  num2 :: "int32 option"
  sum_v :: "int32 option"
  difference :: "int32 option"
  product_v :: "int32 option"

definition scanf_d ::
  "((int32 option \<Rightarrow> int32 option) \<Rightarrow> 'a process_scheme \<Rightarrow> 'a process_scheme) \<Rightarrow>
   'a process_scheme stmt" where
  "scanf_d upd s =
     (case stdin s of [] \<Rightarrow> Inr s
      | v # rest \<Rightarrow> Inr (upd (\<lambda>_. Some v) (s\<lparr>stdin := rest\<rparr>)))"

datatype arg = IntArg int32 | FloatArg f32

text \<open>
  \<open>printf\<close> copies its format and replaces each conversion by the text of the next
  argument. The conversions the two programs use are \<open>%d\<close> and \<open>%.2f\<close>; a \<open>%\<close>
  followed by anything else, or an argument of the wrong kind, is \<open>BadFormat\<close>.
\<close>

function format :: "string \<Rightarrow> arg list \<Rightarrow> ub + string" where
  "format [] args = Inr []"
| "format (c # cs) args =
     (if c = CHR ''%'' then
        (if take 1 cs = ''d'' then
           (case args of
              IntArg v # args' \<Rightarrow>
                (case format (drop 1 cs) args' of Inl u \<Rightarrow> Inl u
                 | Inr t \<Rightarrow> Inr (show_int (sint v) @ t))
            | _ \<Rightarrow> Inl BadFormat)
         else if take 3 cs = ''.2f'' then
           (case args of
              FloatArg x # args' \<Rightarrow>
                (case format (drop 3 cs) args' of Inl u \<Rightarrow> Inl u
                 | Inr t \<Rightarrow> Inr (show_f2 x @ t))
            | _ \<Rightarrow> Inl BadFormat)
         else Inl BadFormat)
      else (case format cs args of Inl u \<Rightarrow> Inl u | Inr t \<Rightarrow> Inr (c # t)))"
  by pat_completeness auto
termination
  by (relation "measure (\<lambda>(f, a). length f)") auto

fun eval_args :: "('s, arg) expr list \<Rightarrow> ('s, arg list) expr" where
  "eval_args [] s = Inr []"
| "eval_args (e # es) s =
     (case e s of Inl u \<Rightarrow> Inl u
      | Inr v \<Rightarrow> (case eval_args es s of Inl u \<Rightarrow> Inl u | Inr vs \<Rightarrow> Inr (v # vs)))"

definition printf :: "string \<Rightarrow> ('a process_scheme, arg) expr list \<Rightarrow> 'a process_scheme stmt" where
  "printf fmt es s =
     (case eval_args es s of Inl u \<Rightarrow> Inl u
      | Inr vs \<Rightarrow>
          (case format fmt vs of Inl u \<Rightarrow> Inl u
           | Inr t \<Rightarrow> Inr (s\<lparr>stdout := stdout s @ [t]\<rparr>)))"

subsection \<open>\<open>test.c\<close>\<close>

record test_state = process +
  quotient_v :: "f32 option"

definition test_body :: "test_state stmt list" where
  "test_body =
    [printf ''=== Simple Calculator Program ===\<newline>'' [],
     printf ''Enter the first number: '' [],
     scanf_d num1_update,
     printf ''Enter the second number: '' [],
     scanf_d num2_update,
     assign sum_v_update (binop (+) (var ''num1'' num1) (var ''num2'' num2)),
     assign difference_update (binop (-) (var ''num1'' num1) (var ''num2'' num2)),
     assign product_v_update (binop (*) (var ''num1'' num1) (var ''num2'' num2)),
     if_else (binop (\<noteq>) (var ''num2'' num2) (lit 0))
       (block
         [assign quotient_v_update
            (binop fdiv (unop int_to_float (var ''num1'' num1))
                        (unop int_to_float (var ''num2'' num2)))])
       (block []),
     printf ''\<newline>=== Results ===\<newline>'' [],
     printf ''Addition: %d + %d = %d\<newline>''
       [unop IntArg (var ''num1'' num1), unop IntArg (var ''num2'' num2),
        unop IntArg (var ''sum'' sum_v)],
     printf ''Subtraction: %d - %d = %d\<newline>''
       [unop IntArg (var ''num1'' num1), unop IntArg (var ''num2'' num2),
        unop IntArg (var ''difference'' difference)],
     printf (''Multiplication: %d '' @ [CHR 0xC3, CHR 0x97] @ '' %d = %d\<newline>'')
       [unop IntArg (var ''num1'' num1), unop IntArg (var ''num2'' num2),
        unop IntArg (var ''product'' product_v)],
     if_else (binop (\<noteq>) (var ''num2'' num2) (lit 0))
       (block
         [printf (''Division: %d '' @ [CHR 0xC3, CHR 0xB7] @ '' %d = %.2f\<newline>'')
            [unop IntArg (var ''num1'' num1), unop IntArg (var ''num2'' num2),
             unop FloatArg (var ''quotient'' quotient_v)]])
       (block
         [printf ''Division: Cannot divide by zero!\<newline>'' []])]"

text \<open>\<open>main\<close> runs its statements and ends in \<open>return 0\<close>.\<close>

definition test_main :: "test_state \<Rightarrow> ub + (test_state \<times> int)" where
  "test_main s = (case block test_body s of Inl u \<Rightarrow> Inl u | Inr s' \<Rightarrow> Inr (s', 0))"

definition test_start :: "int32 list \<Rightarrow> test_state" where
  "test_start inp =
     \<lparr>stdin = inp, stdout = [], num1 = None, num2 = None, sum_v = None,
      difference = None, product_v = None, quotient_v = None\<rparr>"

definition test_run :: "int32 list \<Rightarrow> ub + (test_state \<times> int)" where
  "test_run inp = test_main (test_start inp)"

subsection \<open>\<open>test2.c\<close>\<close>

record test2_state = process +
  division :: "f32 option"

definition test2_body :: "test2_state stmt list" where
  "test2_body =
    [printf ''Enter first number: '' [],
     scanf_d num1_update,
     printf ''Enter second number: '' [],
     scanf_d num2_update,
     assign sum_v_update (binop (+) (var ''num1'' num1) (var ''num2'' num2)),
     assign difference_update (binop (-) (var ''num1'' num1) (var ''num2'' num2)),
     assign product_v_update (binop (*) (var ''num1'' num1) (var ''num2'' num2)),
     if_else (binop (\<noteq>) (var ''num2'' num2) (lit 0))
       (block
         [assign division_update
            (binop fdiv (unop int_to_float (var ''num1'' num1))
                        (unop int_to_float (var ''num2'' num2)))])
       (block []),
     printf ''\<newline>Results:\<newline>'' [],
     printf ''%d + %d = %d\<newline>''
       [unop IntArg (var ''num1'' num1), unop IntArg (var ''num2'' num2),
        unop IntArg (var ''sum'' sum_v)],
     printf ''%d - %d = %d\<newline>''
       [unop IntArg (var ''num1'' num1), unop IntArg (var ''num2'' num2),
        unop IntArg (var ''difference'' difference)],
     printf ''%d * %d = %d\<newline>''
       [unop IntArg (var ''num1'' num1), unop IntArg (var ''num2'' num2),
        unop IntArg (var ''product'' product_v)],
     if_else (binop (\<noteq>) (var ''num2'' num2) (lit 0))
       (block
         [printf ''%d / %d = %.2f\<newline>''
            [unop IntArg (var ''num1'' num1), unop IntArg (var ''num2'' num2),
             unop FloatArg (var ''division'' division)]])
       (block
         [printf ''Division by zero is undefined\<newline>'' []])]"

definition test2_main :: "test2_state \<Rightarrow> ub + (test2_state \<times> int)" where
  "test2_main s = (case block test2_body s of Inl u \<Rightarrow> Inl u | Inr s' \<Rightarrow> Inr (s', 0))"

definition test2_start :: "int32 list \<Rightarrow> test2_state" where
  "test2_start inp =
     \<lparr>stdin = inp, stdout = [], num1 = None, num2 = None, sum_v = None,
      difference = None, product_v = None, division = None\<rparr>"

definition test2_run :: "int32 list \<Rightarrow> ub + (test2_state \<times> int)" where
  "test2_run inp = test2_main (test2_start inp)"

section \<open>What \<open>%d\<close> prints\<close>

text \<open>
  The text of an integer is never empty and consists of digits after an optional minus
  sign. In particular it holds no space, so the first space of a printed line ends its
  first number.
\<close>

lemma digit_char_in: "d < 10 \<Longrightarrow> digit_char d \<in> set ''0123456789''"
  unfolding digit_char_def by (rule nth_mem) simp

lemma show_nat_digits: "set (show_nat n) \<subseteq> set ''0123456789''"
proof (induction n rule: show_nat.induct)
  case (1 n)
  show ?case
  proof (cases "n < 10")
    case True
    then show ?thesis
      using digit_char_in [of n] by (subst show_nat.simps) simp
  next
    case False
    have "n mod 10 < 10" by simp
    then have "digit_char (n mod 10) \<in> set ''0123456789''"
      by (rule digit_char_in)
    with False "1.IH" show ?thesis
      by (subst show_nat.simps) simp
  qed
qed

lemma show_nat_nonempty: "show_nat n \<noteq> []"
  by (subst show_nat.simps) simp

lemma show_int_chars: "set (show_int i) \<subseteq> set ''-0123456789''"
proof (cases "i < 0")
  case True
  then have "set (show_int i) = insert CHR ''-'' (set (show_nat (nat (- i))))"
    by (simp add: show_int_def)
  also have "\<dots> \<subseteq> insert CHR ''-'' (set ''0123456789'')"
    using show_nat_digits by (rule insert_mono)
  also have "insert CHR ''-'' (set ''0123456789'') = set ''-0123456789''"
    by simp
  finally show ?thesis .
next
  case False
  then have "set (show_int i) = set (show_nat (nat i))"
    by (simp add: show_int_def)
  also have "\<dots> \<subseteq> set ''0123456789''"
    by (rule show_nat_digits)
  also have "\<dots> \<subseteq> set ''-0123456789''"
    by (simp add: subset_insertI)
  finally show ?thesis .
qed

lemma show_int_nonempty: "show_int i \<noteq> []"
  by (simp add: show_int_def show_nat_nonempty)

lemma show_int_append_neq:
  assumes "c \<notin> set ''-0123456789''"
  shows "show_int i @ r \<noteq> c # t"
proof
  assume eq: "show_int i @ r = c # t"
  obtain d ds where d: "show_int i = d # ds"
    using show_int_nonempty [of i] by (cases "show_int i") auto
  with eq have "d = c" by simp
  moreover have "d \<in> set (show_int i)"
    using d by simp
  then have "d \<in> set ''-0123456789''"
    using show_int_chars [of i] by (rule rev_subsetD)
  ultimately show False using assms by simp
qed

lemma split_at_space:
  assumes "CHR '' '' \<notin> set xs" and "CHR '' '' \<notin> set ys"
    and "xs @ CHR '' '' # r = ys @ CHR '' '' # t"
  shows "xs = ys \<and> r = t"
  using assms
proof (induction xs arbitrary: ys)
  case Nil
  then show ?case by (cases ys) auto
next
  case (Cons x xs)
  then show ?case by (cases ys) auto
qed

lemma show_int_no_space: "CHR '' '' \<notin> set (show_int i)"
proof
  assume "CHR '' '' \<in> set (show_int i)"
  then have "CHR '' '' \<in> set ''-0123456789''"
    using show_int_chars [of i] by (rule rev_subsetD)
  then show False by simp
qed

lemma show_int_sep:
  "show_int i @ CHR '' '' # r = show_int j @ CHR '' '' # t \<longleftrightarrow> show_int i = show_int j \<and> r = t"
  using split_at_space [OF show_int_no_space show_int_no_space] by auto

section \<open>Running the programs\<close>

text \<open>
  With two integers on standard input every run is defined, and its final state can be
  written down: the texts printed, the locals, and the status \<open>main\<close> returns.
\<close>

lemmas stmt_defs = var_def lit_def unop_def binop_def assign_def if_else_def scanf_d_def printf_def

lemmas show_defs = show_int_def show_nat.simps digit_char_def

lemma test_run_pair:
  "test_run (a # b # rest) =
     Inr (\<lparr>stdin = rest,
           stdout =
             [''=== Simple Calculator Program ===\<newline>'',
              ''Enter the first number: '',
              ''Enter the second number: '',
              ''\<newline>=== Results ===\<newline>'',
              ''Addition: '' @ show_int (sint a) @ '' + '' @ show_int (sint b) @ '' = '' @
                show_int (sint (a + b)) @ ''\<newline>'',
              ''Subtraction: '' @ show_int (sint a) @ '' - '' @ show_int (sint b) @ '' = '' @
                show_int (sint (a - b)) @ ''\<newline>'',
              ''Multiplication: '' @ show_int (sint a) @ [CHR '' '', CHR 0xC3, CHR 0x97, CHR '' ''] @
                show_int (sint b) @ '' = '' @ show_int (sint (a * b)) @ ''\<newline>'',
              if b \<noteq> 0
              then ''Division: '' @ show_int (sint a) @ [CHR '' '', CHR 0xC3, CHR 0xB7, CHR '' ''] @
                   show_int (sint b) @ '' = '' @
                   show_f2 (fdiv (int_to_float a) (int_to_float b)) @ ''\<newline>''
              else ''Division: Cannot divide by zero!\<newline>''],
           num1 = Some a, num2 = Some b, sum_v = Some (a + b), difference = Some (a - b),
           product_v = Some (a * b),
           quotient_v = (if b \<noteq> 0 then Some (fdiv (int_to_float a) (int_to_float b)) else None)\<rparr>,
          0)"
  by (simp add: test_run_def test_main_def test_start_def test_body_def stmt_defs)

lemma test2_run_pair:
  "test2_run (a # b # rest) =
     Inr (\<lparr>stdin = rest,
           stdout =
             [''Enter first number: '',
              ''Enter second number: '',
              ''\<newline>Results:\<newline>'',
              show_int (sint a) @ '' + '' @ show_int (sint b) @ '' = '' @
                show_int (sint (a + b)) @ ''\<newline>'',
              show_int (sint a) @ '' - '' @ show_int (sint b) @ '' = '' @
                show_int (sint (a - b)) @ ''\<newline>'',
              show_int (sint a) @ '' * '' @ show_int (sint b) @ '' = '' @
                show_int (sint (a * b)) @ ''\<newline>'',
              if b \<noteq> 0
              then show_int (sint a) @ '' / '' @ show_int (sint b) @ '' = '' @
                   show_f2 (fdiv (int_to_float a) (int_to_float b)) @ ''\<newline>''
              else ''Division by zero is undefined\<newline>''],
           num1 = Some a, num2 = Some b, sum_v = Some (a + b), difference = Some (a - b),
           product_v = Some (a * b),
           division = (if b \<noteq> 0 then Some (fdiv (int_to_float a) (int_to_float b)) else None)\<rparr>,
          0)"
  by (simp add: test2_run_def test2_main_def test2_start_def test2_body_def stmt_defs)

text \<open>
  With fewer than two integers on standard input a \<open>scanf\<close> stores nothing and the
  first computation reads a variable that was never assigned.
\<close>

lemma test_run_short:
  "test_run [] = Inl (UninitRead ''num1'')" "test_run [a] = Inl (UninitRead ''num2'')"
  by (simp_all add: test_run_def test_main_def test_start_def test_body_def stmt_defs)

lemma test2_run_short:
  "test2_run [] = Inl (UninitRead ''num1'')" "test2_run [a] = Inl (UninitRead ''num2'')"
  by (simp_all add: test2_run_def test2_main_def test2_start_def test2_body_def stmt_defs)

lemma input_cases:
  "inp = [] \<or> (\<exists>a. inp = [a]) \<or> (\<exists>a b rest. inp = a # b # rest)"
  by (cases inp; cases "tl inp"; auto)

text \<open>
  Characters that begin no integer: they tell the fixed texts from the lines that start
  with a number.
\<close>

lemma nl_not_digit: "CHR ''\<newline>'' \<notin> set ''-0123456789''" by simp

lemma D_not_digit: "CHR ''D'' \<notin> set ''-0123456789''" by simp

lemma C_not_digit: "CHR ''C'' \<notin> set ''-0123456789''" by simp

lemmas show_int_neq = show_int_append_neq [OF nl_not_digit] show_int_append_neq [OF D_not_digit]
  show_int_append_neq [OF C_not_digit]

subsection \<open>What a statement can change\<close>

lemma assign_result:
  assumes "assign upd e s = Inr s'"
  obtains v where "s' = upd (\<lambda>_. Some v) s"
  using assms by (auto simp: assign_def split: sum.splits)

lemma printf_result:
  assumes "printf fmt es s = Inr s'"
  obtains t where "s' = s\<lparr>stdout := stdout s @ [t]\<rparr>"
  using assms by (auto simp: printf_def split: sum.splits)

lemma if_else_result:
  assumes "if_else c t e s = Inr s'"
  obtains "t s = Inr s'" | "e s = Inr s'"
  using assms by (auto simp: if_else_def split: sum.splits if_splits)

lemma block_single: "block [c] s = Inr s' \<longleftrightarrow> c s = Inr s'"
  by (simp split: sum.splits)

lemma frame_test:
  "c \<in> set (drop 5 test_body) \<Longrightarrow> c s = Inr s' \<Longrightarrow> num1 s' = num1 s \<and> num2 s' = num2 s"
  by (auto simp: test_body_def block_single simp del: block.simps(2)
      elim!: if_else_result assign_result printf_result)

lemma frame_test2:
  "c \<in> set (drop 4 test2_body) \<Longrightarrow> c s = Inr s' \<Longrightarrow> num1 s' = num1 s \<and> num2 s' = num2 s"
  by (auto simp: test2_body_def block_single simp del: block.simps(2)
      elim!: if_else_result assign_result printf_result)

subsection \<open>Two evaluations of the \<open>float\<close> division\<close>

lemma fdiv_10_5: "fdiv (int_to_float 10) (int_to_float 5) = Finite False 2"
  by code_simp

lemma fdiv_1_3: "fdiv (int_to_float 1) (int_to_float 3) = Finite False (11184811 / 33554432)"
  by code_simp

lemma show_f2_two: "show_f2 (Finite False 2) = ''2.00''"
  by code_simp

text \<open>
  The largest \<open>int\<close> is no \<open>float\<close>: its conversion rounds up by 1, and so does the
  quotient by 1. The error of a quotient is small relative to the quotient, not absolutely.
\<close>

lemma fdiv_max_int: "fdiv (int_to_float 2147483647) (int_to_float 1) = Finite False 2147483648"
  by code_simp

section \<open>The rounding error of the \<open>float\<close> operations\<close>

text \<open>
  Rounding to the nearest integer moves a number by at most one half. Within the normal
  range of binary32, between \<open>2^-126\<close> and \<open>2^127\<close>, rounding therefore changes a
  number by at most the fraction \<open>2^-24\<close> of itself. Every \<open>int\<close> other than 0 and every
  quotient of two converted \<open>int\<close>s lies in that range, so the division of the two programs
  never overflows and never reaches the subnormal numbers.
\<close>

lemma rne_error: "\<bar>of_int (rne x) - x\<bar> \<le> 1 / 2"
proof -
  have "of_int \<lfloor>x\<rfloor> \<le> x" and "x < of_int \<lfloor>x\<rfloor> + 1"
    by linarith+
  then show ?thesis
    by (auto simp: rne_def Let_def)
qed

lemma powi_nonneg: "0 \<le> k \<Longrightarrow> (2::rat) powi k = 2 ^ nat k"
  by (simp add: power_int_def)

lemma powi_neg: "0 \<le> k \<Longrightarrow> (2::rat) powi (- k) = 1 / 2 ^ nat k"
  by (simp add: power_int_minus powi_nonneg field_simps)

lemma ilog2_lower:
  assumes "0 < x"
  shows "2 powi (ilog2 x) \<le> x"
proof (cases "1 \<le> x")
  case True
  define n where "n = \<lfloor>x\<rfloor>"
  have n: "0 < n" using True by (simp add: n_def)
  then have b: "1 \<le> bitlen n" by (simp add: bitlen_alt_def)
  have "2 ^ nat (bitlen n - 1) \<le> n"
    using bitlen_bounds [OF n] by simp
  then have "(2::rat) ^ nat (bitlen n - 1) \<le> of_int n"
    by (metis of_int_le_iff of_int_numeral of_int_power)
  also have "\<dots> \<le> x" by (simp add: n_def)
  finally show ?thesis
    using True b by (simp add: ilog2_def n_def [symmetric] powi_nonneg)
next
  case False
  define m where "m = \<lceil>1 / x\<rceil> - 1"
  have y: "1 < 1 / x" using False assms by simp
  then have m: "0 < m" by (simp add: m_def)
  have "m < 2 ^ nat (bitlen m)"
    using bitlen_bounds [OF m] by simp
  then have "\<lceil>1 / x\<rceil> \<le> 2 ^ nat (bitlen m)" by (simp add: m_def)
  then have "of_int \<lceil>1 / x\<rceil> \<le> (2::rat) ^ nat (bitlen m)"
    by (metis of_int_le_iff of_int_numeral of_int_power)
  then have "1 / x \<le> 2 ^ nat (bitlen m)"
    using le_of_int_ceiling [of "1 / x"] by linarith
  then have "1 / 2 ^ nat (bitlen m) \<le> x"
    using assms by (simp add: field_simps)
  moreover have "0 \<le> bitlen m" by (rule bitlen_nonneg)
  ultimately show ?thesis
    using False by (simp add: ilog2_def m_def [symmetric] powi_neg)
qed

lemma ilog2_upper:
  assumes "0 < x"
  shows "x < 2 powi (ilog2 x + 1)"
proof (cases "1 \<le> x")
  case True
  define n where "n = \<lfloor>x\<rfloor>"
  have n: "0 < n" using True by (simp add: n_def)
  then have b: "1 \<le> bitlen n" by (simp add: bitlen_alt_def)
  have "n + 1 \<le> 2 ^ nat (bitlen n)"
    using bitlen_bounds [OF n] by simp
  then have "of_int (n + 1) \<le> (2::rat) ^ nat (bitlen n)"
    by (metis of_int_le_iff of_int_numeral of_int_power)
  moreover have "x < of_int (n + 1)"
    using floor_correct [of x] by (simp add: n_def)
  ultimately have "x < 2 ^ nat (bitlen n)" by linarith
  then show ?thesis
    using True b by (simp add: ilog2_def n_def [symmetric] powi_nonneg)
next
  case False
  define m where "m = \<lceil>1 / x\<rceil> - 1"
  have y: "1 < 1 / x" using False assms by simp
  then have m: "0 < m" by (simp add: m_def)
  then have b: "1 \<le> bitlen m" by (simp add: bitlen_alt_def)
  have "2 ^ nat (bitlen m - 1) \<le> m"
    using bitlen_bounds [OF m] by simp
  then have "(2::rat) ^ nat (bitlen m - 1) \<le> of_int m"
    by (metis of_int_le_iff of_int_numeral of_int_power)
  moreover have "of_int m < 1 / x"
    unfolding m_def using ceiling_correct [of "1 / x"] by simp
  ultimately have "2 ^ nat (bitlen m - 1) < 1 / x" by linarith
  then have "x < 1 / 2 ^ nat (bitlen m - 1)"
    using assms by (simp add: field_simps)
  moreover have "(2::rat) powi (- bitlen m + 1) = 1 / 2 ^ nat (bitlen m - 1)"
    using b powi_neg [of "bitlen m - 1"] by simp
  ultimately show ?thesis
    using False by (simp add: ilog2_def m_def [symmetric])
qed

lemma ilog2_ge:
  assumes "0 < x" and "2 powi k \<le> x"
  shows "k \<le> ilog2 x"
proof (rule ccontr)
  assume "\<not> k \<le> ilog2 x"
  then have "ilog2 x + 1 \<le> k" by simp
  then have "(2::rat) powi (ilog2 x + 1) \<le> 2 powi k"
    by (rule power_int_increasing) simp
  with ilog2_upper [OF assms(1)] assms(2) show False by linarith
qed

lemma f32_round_normal:
  assumes lo: "2 powi (- 126) \<le> x" and hi: "x \<le> 2 powi 127"
  shows "\<exists>y. f32_round s x = Finite s y \<and> \<bar>y - x\<bar> \<le> x / 2 ^ 24"
proof -
  have pos: "0 < x"
    using lo zero_less_power_int [of "2::rat" "- 126"] by linarith
  define e where "e = ilog2 x"
  define ulp :: rat where "ulp = 2 powi (e - 23)"
  define y where "y = of_int (rne (x / ulp)) * ulp"
  have e: "- 126 \<le> e"
    unfolding e_def using pos lo by (rule ilog2_ge)
  have ulp_pos: "0 < ulp"
    by (simp add: ulp_def zero_less_power_int)
  have ulp_eq: "ulp = 2 powi e / 2 ^ 23"
    by (simp add: ulp_def power_int_diff)
  have "\<bar>y - x\<bar> = ulp * \<bar>of_int (rne (x / ulp)) - x / ulp\<bar>"
    using ulp_pos by (simp add: y_def abs_mult [symmetric] field_simps abs_of_pos)
  also have "\<dots> \<le> ulp * (1 / 2)"
    using ulp_pos rne_error [of "x / ulp"] by (intro mult_left_mono) simp_all
  also have "\<dots> = 2 powi e / 2 ^ 24"
    by (simp add: ulp_eq)
  also have "\<dots> \<le> x / 2 ^ 24"
    using ilog2_lower [OF pos] by (simp add: e_def divide_right_mono)
  finally have err: "\<bar>y - x\<bar> \<le> x / 2 ^ 24" .
  then have "y \<le> x + x / 2 ^ 24" by linarith
  also have "\<dots> \<le> 2 powi 127 + 2 powi 127 / 2 ^ 24"
    using hi by (intro add_mono divide_right_mono) simp_all
  also have "\<dots> < 2 powi 128"
    by simp
  finally have fin: "\<not> 2 powi 128 \<le> y" by simp
  have "max (ilog2 x - 23) (- 149) = e - 23"
    using e by (simp add: e_def)
  then have "f32_round s x = Finite s y"
    using pos fin by (simp add: f32_round_def Let_def y_def ulp_def)
  with err show ?thesis by blast
qed

lemma sint32_abs_le: "\<bar>sint (n :: int32)\<bar> \<le> 2 ^ 31"
  using sint_ge [of n] sint_lt [of n] by simp

lemma int_to_float_zero: "sint n = 0 \<Longrightarrow> int_to_float n = Finite False 0"
  by (simp add: int_to_float_def f32_round_def)

lemma int_to_float_nonzero:
  assumes "sint n \<noteq> 0"
  shows "\<exists>y. int_to_float n = Finite (sint n < 0) y \<and>
           \<bar>y - of_int \<bar>sint n\<bar>\<bar> \<le> of_int \<bar>sint n\<bar> / 2 ^ 24"
proof -
  have "1 \<le> \<bar>sint n\<bar>" using assms by simp
  then have "(1::rat) \<le> of_int \<bar>sint n\<bar>"
    by (metis of_int_1 of_int_le_iff)
  then have lo: "(2::rat) powi (- 126) \<le> of_int \<bar>sint n\<bar>"
    by (simp add: power_int_minus field_simps)
  have "(of_int \<bar>sint n\<bar> :: rat) \<le> of_int (2 ^ 31)"
    using sint32_abs_le [of n] by (simp only: of_int_le_iff)
  then have hi: "(of_int \<bar>sint n\<bar> :: rat) \<le> 2 powi 127"
    by simp
  show ?thesis
    unfolding int_to_float_def using lo hi by (rule f32_round_normal)
qed

lemma quotient_error:
  fixes A B ya yb y3 :: rat
  assumes A: "0 \<le> A" and B: "0 < B"
    and ya: "\<bar>ya - A\<bar> \<le> A / 2 ^ 24"
    and yb: "\<bar>yb - B\<bar> \<le> B / 2 ^ 24"
    and y3: "\<bar>y3 - ya / yb\<bar> \<le> (ya / yb) / 2 ^ 24"
  shows "\<bar>y3 - A / B\<bar> \<le> (A / B) / 2 ^ 22"
proof -
  define u :: rat where "u = 1 / 2 ^ 24"
  define r where "r = A / B"
  define q where "q = ya / yb"
  have r: "0 \<le> r" using A B by (simp add: r_def)
  have split: "x * (1 - u) \<le> y \<and> y \<le> x * (1 + u)" if "\<bar>y - x\<bar> \<le> x / 2 ^ 24" for x y
  proof -
    define d where "d = x / 2 ^ 24"
    have "y - x \<le> \<bar>y - x\<bar>" and "x - y \<le> \<bar>y - x\<bar>"
      by (rule abs_ge_self, rule abs_ge_minus_self [of "y - x", simplified])
    with that have "y - x \<le> d" and "x - y \<le> d"
      unfolding d_def by (blast intro: order_trans)+
    moreover have "x * (1 - u) = x - d" and "x * (1 + u) = x + d"
      by (simp_all add: u_def d_def algebra_simps)
    ultimately show ?thesis by simp
  qed
  have ya1: "A * (1 - u) \<le> ya" and ya2: "ya \<le> A * (1 + u)"
    using split [OF ya] by simp_all
  have yb1: "B * (1 - u) \<le> yb" and yb2: "yb \<le> B * (1 + u)"
    using split [OF yb] by simp_all
  have y31: "q * (1 - u) \<le> y3" and y32: "y3 \<le> q * (1 + u)"
    using split [OF y3] by (simp_all add: q_def)
  have u1: "0 < 1 - u" and u2: "0 < 1 + u" by (simp_all add: u_def)
  have yb_pos: "0 < yb"
    using yb1 B u1 by (meson less_le_trans mult_pos_pos)
  have ya_nonneg: "0 \<le> ya"
    using ya1 A u1 by (meson order_trans mult_nonneg_nonneg less_imp_le)
  have "q \<le> (A * (1 + u)) / (B * (1 - u))"
    unfolding q_def using A u1 u2 ya2 B yb1 by (intro frac_le) simp_all
  then have q2: "q \<le> r * ((1 + u) / (1 - u))"
    by (simp add: r_def)
  have "(A * (1 - u)) / (B * (1 + u)) \<le> q"
    unfolding q_def using ya_nonneg ya1 yb_pos yb2 by (intro frac_le) simp_all
  then have q1: "r * ((1 - u) / (1 + u)) \<le> q"
    by (simp add: r_def)
  have q_nonneg: "0 \<le> q"
    using ya_nonneg yb_pos by (simp add: q_def)
  have "y3 \<le> q * (1 + u)" by (rule y32)
  also have "\<dots> \<le> r * ((1 + u) / (1 - u)) * (1 + u)"
    using q2 u2 by (intro mult_right_mono) simp_all
  also have "\<dots> = r * ((1 + u) / (1 - u) * (1 + u))"
    by simp
  also have "\<dots> \<le> r * (1 + 1 / 2 ^ 22)"
    using r by (intro mult_left_mono) (simp_all add: u_def)
  finally have up: "y3 \<le> r + r / 2 ^ 22"
    by (simp add: field_simps)
  have "r * (1 - 1 / 2 ^ 22) \<le> r * ((1 - u) / (1 + u) * (1 - u))"
    using r by (intro mult_left_mono) (simp_all add: u_def)
  also have "\<dots> = r * ((1 - u) / (1 + u)) * (1 - u)"
    by simp
  also have "\<dots> \<le> q * (1 - u)"
    using q1 u1 by (intro mult_right_mono) simp_all
  also have "\<dots> \<le> y3" by (rule y31)
  finally have low: "r - r / 2 ^ 22 \<le> y3"
    by (simp add: field_simps)
  define d where "d = r / 2 ^ 22"
  from up low have "y3 - r \<le> d" and "- (y3 - r) \<le> d"
    unfolding d_def by simp_all
  then have "\<bar>y3 - r\<bar> \<le> d"
    by (rule abs_leI)
  then show ?thesis
    by (simp only: d_def r_def)
qed

lemma int_to_float_range:
  assumes "sint n \<noteq> 0"
  shows "\<exists>y. int_to_float n = Finite (sint n < 0) y \<and>
           \<bar>y - of_int \<bar>sint n\<bar>\<bar> \<le> of_int \<bar>sint n\<bar> / 2 ^ 24 \<and> 1 / 2 \<le> y \<and> y \<le> 2 ^ 32"
proof -
  obtain y where y: "int_to_float n = Finite (sint n < 0) y"
    and err: "\<bar>y - of_int \<bar>sint n\<bar>\<bar> \<le> of_int \<bar>sint n\<bar> / 2 ^ 24"
    using int_to_float_nonzero [OF assms] by blast
  define N :: rat where "N = of_int \<bar>sint n\<bar>"
  have "1 \<le> \<bar>sint n\<bar>" using assms by simp
  then have N1: "1 \<le> N"
    unfolding N_def by (metis of_int_1 of_int_le_iff)
  have "N \<le> of_int (2 ^ 31)"
    unfolding N_def using sint32_abs_le [of n] by (simp only: of_int_le_iff)
  then have N2: "N \<le> 2 ^ 31" by simp
  define d where "d = N / 2 ^ 24"
  have d: "0 \<le> d" "d \<le> N / 2" "d \<le> N"
    using N1 by (simp_all add: d_def)
  have "y - N \<le> \<bar>y - N\<bar>" and "N - y \<le> \<bar>y - N\<bar>"
    by (rule abs_ge_self, rule abs_ge_minus_self [of "y - N", simplified])
  with err have "y - N \<le> d" and "N - y \<le> d"
    unfolding d_def N_def by (blast intro: order_trans)+
  with d N1 N2 have "1 / 2 \<le> y" and "y \<le> 2 ^ 32"
    by simp_all
  with y err show ?thesis by blast
qed

lemma sint32_eq_0: "sint (n :: int32) = 0 \<longleftrightarrow> n = 0"
  by (rule signed_eq_0_iff)

lemma fdiv_error:
  assumes "b \<noteq> 0"
  shows "\<exists>q. f32_value (fdiv (int_to_float a) (int_to_float b)) = Some q \<and>
           \<bar>q - of_int (sint a) / of_int (sint b)\<bar> \<le> \<bar>of_int (sint a) / of_int (sint b)\<bar> / 2 ^ 22"
proof -
  define A B :: rat where "A = of_int \<bar>sint a\<bar>" and "B = of_int \<bar>sint b\<bar>"
  have sb: "sint b \<noteq> 0" using assms by (simp add: sint32_eq_0)
  then have "0 < \<bar>sint b\<bar>" by simp
  then have B: "0 < B" unfolding B_def by (simp only: of_int_0_less_iff)
  have "0 \<le> \<bar>sint a\<bar>" by simp
  then have A: "0 \<le> A" unfolding A_def by (simp only: of_int_0_le_iff)
  obtain yb where fb: "int_to_float b = Finite (sint b < 0) yb"
    and eb: "\<bar>yb - B\<bar> \<le> B / 2 ^ 24" and b1: "1 / 2 \<le> yb" and b2: "yb \<le> 2 ^ 32"
    using int_to_float_range [OF sb] unfolding B_def by blast
  have yb_pos: "0 < yb" using b1 by simp
  show ?thesis
  proof (cases "sint a = 0")
    case True
    then have "int_to_float a = Finite False 0"
      by (rule int_to_float_zero)
    then have "f32_value (fdiv (int_to_float a) (int_to_float b)) = Some 0"
      using fb yb_pos by (simp add: f32_round_def)
    with True show ?thesis by simp
  next
    case False
    obtain ya where fa: "int_to_float a = Finite (sint a < 0) ya"
      and ea: "\<bar>ya - A\<bar> \<le> A / 2 ^ 24" and a1: "1 / 2 \<le> ya" and a2: "ya \<le> 2 ^ 32"
      using int_to_float_range [OF False] unfolding A_def by blast
    have "(2::rat) powi (- 126) \<le> (1 / 2) / 2 ^ 32"
      by (simp add: power_int_minus)
    also have "(1 / 2) / 2 ^ 32 \<le> ya / yb"
      using a1 b2 yb_pos by (intro frac_le) simp_all
    finally have lo: "2 powi (- 126) \<le> ya / yb" .
    have "ya / yb \<le> 2 ^ 32 / (1 / 2)"
      using a2 b1 by (intro frac_le) simp_all
    also have "\<dots> \<le> 2 powi 127"
      by simp
    finally have hi: "ya / yb \<le> 2 powi 127" .
    obtain y3 where f3: "f32_round ((sint a < 0) \<noteq> (sint b < 0)) (ya / yb) =
        Finite ((sint a < 0) \<noteq> (sint b < 0)) y3"
      and e3: "\<bar>y3 - ya / yb\<bar> \<le> (ya / yb) / 2 ^ 24"
      using f32_round_normal [OF lo hi] by blast
    have err: "\<bar>y3 - A / B\<bar> \<le> (A / B) / 2 ^ 22"
      using A B ea eb e3 by (rule quotient_error)
    have val: "f32_value (fdiv (int_to_float a) (int_to_float b)) =
        Some (if (sint a < 0) \<noteq> (sint b < 0) then - y3 else y3)"
      using fa fb f3 yb_pos by simp
    have ratio: "of_int (sint a) / of_int (sint b) =
        (if (sint a < 0) \<noteq> (sint b < 0) then - (A / B) else A / B)"
      by (auto simp: A_def B_def abs_if)
    define r where "r = A / B"
    have "0 \<le> r" using A B by (simp add: r_def)
    then have r: "\<bar>r\<bar> = r" by (rule abs_of_nonneg)
    have err': "\<bar>y3 - r\<bar> \<le> \<bar>r\<bar> / 2 ^ 22"
      using err by (simp only: r_def [symmetric] r)
    define c where "c \<longleftrightarrow> (sint a < 0) \<noteq> (sint b < 0)"
    have val': "f32_value (fdiv (int_to_float a) (int_to_float b)) = Some (if c then - y3 else y3)"
      and ratio': "of_int (sint a) / of_int (sint b) = (if c then - r else r)"
      using val ratio by (simp_all only: c_def r_def)
    show ?thesis
    proof (cases c)
      case True
      have "\<bar>- y3 - (- r)\<bar> = \<bar>y3 - r\<bar>"
        using abs_minus_commute [of r y3] by simp
      moreover have "\<bar>- r\<bar> = \<bar>r\<bar>" by simp
      ultimately have "\<bar>- y3 - (- r)\<bar> \<le> \<bar>- r\<bar> / 2 ^ 22"
        using err' by (simp only:)
      moreover have "f32_value (fdiv (int_to_float a) (int_to_float b)) = Some (- y3)"
        and "of_int (sint a) / of_int (sint b) = - r"
        using True val' ratio' by (simp_all only: if_True)
      ultimately show ?thesis by (simp only:) blast
    next
      case False
      then have "f32_value (fdiv (int_to_float a) (int_to_float b)) = Some y3"
        and "of_int (sint a) / of_int (sint b) = r"
        using val' ratio' by (simp_all only: if_False)
      with err' show ?thesis by (simp only:) blast
    qed
  qed
qed

section \<open>The claims of the specification\<close>

text \<open>
  Claim C1, as amended. For every pair of input integers \<open>a\<close> and \<open>b\<close>, also for
  \<open>b = 0\<close>, both programs assign to \<open>sum\<close>, \<open>difference\<close> and \<open>product\<close> the
  values of \<open>a + b\<close>, \<open>a - b\<close> and \<open>a * b\<close> reduced to the 32-bit range of \<open>int\<close>;
  each is the exact integer result whenever that result lies between \<open>-2^31\<close> and
  \<open>2^31 - 1\<close>. These are the values printed in the three arithmetic result lines.
\<close>

theorem arithmetic_results:
  "(\<exists>s x y z. test_run (a # b # rest) = Inr (s, 0) \<and>
      sum_v s = Some x \<and> difference s = Some y \<and> product_v s = Some z \<and>
      sint x = signed_take_bit 31 (sint a + sint b) \<and>
      sint y = signed_take_bit 31 (sint a - sint b) \<and>
      sint z = signed_take_bit 31 (sint a * sint b) \<and>
      (- (2 ^ 31) \<le> sint a + sint b \<and> sint a + sint b < 2 ^ 31 \<longrightarrow> sint x = sint a + sint b) \<and>
      (- (2 ^ 31) \<le> sint a - sint b \<and> sint a - sint b < 2 ^ 31 \<longrightarrow> sint y = sint a - sint b) \<and>
      (- (2 ^ 31) \<le> sint a * sint b \<and> sint a * sint b < 2 ^ 31 \<longrightarrow> sint z = sint a * sint b) \<and>
      take 3 (drop 4 (stdout s)) =
        [''Addition: '' @ show_int (sint a) @ '' + '' @ show_int (sint b) @ '' = '' @
           show_int (sint x) @ ''\<newline>'',
         ''Subtraction: '' @ show_int (sint a) @ '' - '' @ show_int (sint b) @ '' = '' @
           show_int (sint y) @ ''\<newline>'',
         ''Multiplication: '' @ show_int (sint a) @ [CHR '' '', CHR 0xC3, CHR 0x97, CHR '' ''] @
           show_int (sint b) @ '' = '' @ show_int (sint z) @ ''\<newline>'']) \<and>
   (\<exists>s x y z. test2_run (a # b # rest) = Inr (s, 0) \<and>
      sum_v s = Some x \<and> difference s = Some y \<and> product_v s = Some z \<and>
      sint x = signed_take_bit 31 (sint a + sint b) \<and>
      sint y = signed_take_bit 31 (sint a - sint b) \<and>
      sint z = signed_take_bit 31 (sint a * sint b) \<and>
      (- (2 ^ 31) \<le> sint a + sint b \<and> sint a + sint b < 2 ^ 31 \<longrightarrow> sint x = sint a + sint b) \<and>
      (- (2 ^ 31) \<le> sint a - sint b \<and> sint a - sint b < 2 ^ 31 \<longrightarrow> sint y = sint a - sint b) \<and>
      (- (2 ^ 31) \<le> sint a * sint b \<and> sint a * sint b < 2 ^ 31 \<longrightarrow> sint z = sint a * sint b) \<and>
      take 3 (drop 3 (stdout s)) =
        [show_int (sint a) @ '' + '' @ show_int (sint b) @ '' = '' @ show_int (sint x) @ ''\<newline>'',
         show_int (sint a) @ '' - '' @ show_int (sint b) @ '' = '' @ show_int (sint y) @ ''\<newline>'',
         show_int (sint a) @ '' * '' @ show_int (sint b) @ '' = '' @ show_int (sint z) @ ''\<newline>''])"
proof -
  have wrap: "sint (a + b) = signed_take_bit 31 (sint a + sint b)"
    "sint (a - b) = signed_take_bit 31 (sint a - sint b)"
    "sint (a * b) = signed_take_bit 31 (sint a * sint b)"
    by (simp_all add: sint_word_ariths)
  have exact: "- (2 ^ 31) \<le> k \<and> k < 2 ^ 31 \<longrightarrow> signed_take_bit 31 k = k" for k :: int
    by (simp add: signed_take_bit_int_eq_self_iff)
  show ?thesis
    using exact [of "sint a + sint b"] exact [of "sint a - sint b"] exact [of "sint a * sint b"]
    by (simp add: test_run_pair test2_run_pair wrap)
qed

theorem arithmetic_results_witness:
  "(\<exists>s. test_run [7, 0] = Inr (s, 0) \<and> map_option sint (sum_v s) = Some 7 \<and>
        map_option sint (difference s) = Some 7 \<and> map_option sint (product_v s) = Some 0) \<and>
   (\<exists>s. test2_run [-4, 2] = Inr (s, 0) \<and> map_option sint (sum_v s) = Some (- 2) \<and>
        map_option sint (difference s) = Some (- 6) \<and> map_option sint (product_v s) = Some (- 8))"
  using arithmetic_results [of 7 0 "[]"] arithmetic_results [of "- 4" 2 "[]"]
  by (auto simp: signed_take_bit_int_eq_self)

text \<open>
  Claim C1 as the specification states it, with \<open>sum\<close> equal to the integer \<open>a + b\<close> for
  every pair of inputs, fails where the exact result leaves the range of \<open>int\<close>: on the
  inputs 2147483647 and 1 the sum stored and printed is -2147483648, not 2147483648.
\<close>

theorem sum_overflow_counterexample:
  "map_option sint (sum_v (fst (projr (test_run [2147483647, 1])))) = Some (- 2147483648) \<and>
   map_option sint (sum_v (fst (projr (test2_run [2147483647, 1])))) = Some (- 2147483648) \<and>
   sint (2147483647 :: int32) + sint (1 :: int32) = 2147483648 \<and>
   stdout (fst (projr (test_run [2147483647, 1]))) ! 4 =
     ''Addition: 2147483647 + 1 = -2147483648\<newline>'' \<and>
   stdout (fst (projr (test2_run [2147483647, 1]))) ! 3 =
     ''2147483647 + 1 = -2147483648\<newline>''"
  by (simp add: test_run_pair test2_run_pair show_defs)

text \<open>
  Claim C2. For every input \<open>a\<close> with the second input 0, the output contains the message
  that the division is not possible, as its last text; no printed text is an instance of
  the quotient line's format, whatever the numbers; and the \<open>float\<close> variable, which only
  the division assigns, is still unassigned at the end: the division is not performed.
\<close>

theorem zero_divisor_message:
  "(\<exists>s. test_run (a # 0 # rest) = Inr (s, 0) \<and>
        ''Division: Cannot divide by zero!\<newline>'' \<in> set (stdout s) \<and>
        last (stdout s) = ''Division: Cannot divide by zero!\<newline>'' \<and>
        (\<forall>x y q. format (''Division: %d '' @ [CHR 0xC3, CHR 0xB7] @ '' %d = %.2f\<newline>'')
                   [IntArg x, IntArg y, FloatArg q] \<notin> Inr ` set (stdout s)) \<and>
        quotient_v s = None) \<and>
   (\<exists>s. test2_run (a # 0 # rest) = Inr (s, 0) \<and>
        ''Division by zero is undefined\<newline>'' \<in> set (stdout s) \<and>
        last (stdout s) = ''Division by zero is undefined\<newline>'' \<and>
        (\<forall>x y q. format ''%d / %d = %.2f\<newline>''
                   [IntArg x, IntArg y, FloatArg q] \<notin> Inr ` set (stdout s)) \<and>
        division s = None)"
  by (simp add: test_run_pair test2_run_pair show_int_neq show_int_sep image_iff)

text \<open>
  Claim C3. For every pair of input integers with \<open>b \<noteq> 0\<close> both programs assign to the
  \<open>float\<close> variable the \<open>float\<close> division of the two converted operands. The result is a
  finite number, and it differs from the exact quotient \<open>a / b\<close> by at most the fraction
  \<open>2^-22\<close> of that quotient: three roundings, of \<open>a\<close>, of \<open>b\<close> and of the division, each
  of relative size at most \<open>2^-24\<close>. The epsilon of the claim is this relative bound, twice
  the machine epsilon \<open>2^-23\<close> of \<open>float\<close>.
\<close>

theorem quotient_approximates:
  assumes "b \<noteq> 0"
  shows "(\<exists>s x q. test_run (a # b # rest) = Inr (s, 0) \<and> quotient_v s = Some x \<and>
            x = fdiv (int_to_float a) (int_to_float b) \<and> f32_value x = Some q \<and>
            \<bar>q - of_int (sint a) / of_int (sint b)\<bar> \<le>
              \<bar>of_int (sint a) / of_int (sint b)\<bar> / 2 ^ 22) \<and>
         (\<exists>s x q. test2_run (a # b # rest) = Inr (s, 0) \<and> division s = Some x \<and>
            x = fdiv (int_to_float a) (int_to_float b) \<and> f32_value x = Some q \<and>
            \<bar>q - of_int (sint a) / of_int (sint b)\<bar> \<le>
              \<bar>of_int (sint a) / of_int (sint b)\<bar> / 2 ^ 22)"
proof -
  obtain q where "f32_value (fdiv (int_to_float a) (int_to_float b)) = Some q"
    and "\<bar>q - of_int (sint a) / of_int (sint b)\<bar> \<le>
           \<bar>of_int (sint a) / of_int (sint b)\<bar> / 2 ^ 22"
    using fdiv_error [OF assms] by blast
  with assms show ?thesis
    by (simp only: test_run_pair test2_run_pair) auto
qed

theorem quotient_approximates_witness:
  "(3 :: int32) \<noteq> 0 \<and>
   (\<exists>s q. test_run [1, 3] = Inr (s, 0) \<and>
      quotient_v s = Some (Finite False (11184811 / 33554432)) \<and>
      f32_value (Finite False (11184811 / 33554432)) = Some q \<and>
      \<bar>q - 1 / 3\<bar> \<le> (1 / 3) / 2 ^ 22)"
  using quotient_approximates [of 3 1 "[]"] by (simp add: fdiv_1_3)


text \<open>
  Claim C5. For every pair of input integers, also with \<open>b = 0\<close>, the run ends and
  returns the status 0, having printed exactly one report: the prompts, the heading of the
  results block (once), the three arithmetic lines with the operands and their results,
  and then the quotient line if \<open>b \<noteq> 0\<close> or the zero-divisor message if \<open>b = 0\<close>;
  nothing else is printed. There is no other way out of \<open>main\<close>.
\<close>

theorem exit_status_zero:
  "(\<exists>s. test_run (a # b # rest) = Inr (s, 0) \<and>
        stdout s =
          [''=== Simple Calculator Program ===\<newline>'',
           ''Enter the first number: '',
           ''Enter the second number: '',
           ''\<newline>=== Results ===\<newline>'',
           ''Addition: '' @ show_int (sint a) @ '' + '' @ show_int (sint b) @ '' = '' @
             show_int (sint (a + b)) @ ''\<newline>'',
           ''Subtraction: '' @ show_int (sint a) @ '' - '' @ show_int (sint b) @ '' = '' @
             show_int (sint (a - b)) @ ''\<newline>'',
           ''Multiplication: '' @ show_int (sint a) @ [CHR '' '', CHR 0xC3, CHR 0x97, CHR '' ''] @
             show_int (sint b) @ '' = '' @ show_int (sint (a * b)) @ ''\<newline>'',
           if b \<noteq> 0
           then ''Division: '' @ show_int (sint a) @ [CHR '' '', CHR 0xC3, CHR 0xB7, CHR '' ''] @
                show_int (sint b) @ '' = '' @
                show_f2 (fdiv (int_to_float a) (int_to_float b)) @ ''\<newline>''
           else ''Division: Cannot divide by zero!\<newline>''] \<and>
        count_list (stdout s) ''\<newline>=== Results ===\<newline>'' = 1) \<and>
   (\<exists>s. test2_run (a # b # rest) = Inr (s, 0) \<and>
        stdout s =
          [''Enter first number: '',
           ''Enter second number: '',
           ''\<newline>Results:\<newline>'',
           show_int (sint a) @ '' + '' @ show_int (sint b) @ '' = '' @
             show_int (sint (a + b)) @ ''\<newline>'',
           show_int (sint a) @ '' - '' @ show_int (sint b) @ '' = '' @
             show_int (sint (a - b)) @ ''\<newline>'',
           show_int (sint a) @ '' * '' @ show_int (sint b) @ '' = '' @
             show_int (sint (a * b)) @ ''\<newline>'',
           if b \<noteq> 0
           then show_int (sint a) @ '' / '' @ show_int (sint b) @ '' = '' @
                show_f2 (fdiv (int_to_float a) (int_to_float b)) @ ''\<newline>''
           else ''Division by zero is undefined\<newline>''] \<and>
        count_list (stdout s) ''\<newline>Results:\<newline>'' = 1)"
  by (simp add: test_run_pair test2_run_pair show_int_neq)

text \<open>
  Claim C6. On the input operands 10 and 5 both programs print the sum 15, the difference 5,
  the product 50 and the quotient formatted to two decimals, 2.00, and return 0.
\<close>

theorem scenario_10_5:
  "test_run [10, 5] =
     Inr (\<lparr>stdin = [],
           stdout =
             [''=== Simple Calculator Program ===\<newline>'',
              ''Enter the first number: '',
              ''Enter the second number: '',
              ''\<newline>=== Results ===\<newline>'',
              ''Addition: 10 + 5 = 15\<newline>'',
              ''Subtraction: 10 - 5 = 5\<newline>'',
              ''Multiplication: 10 '' @ [CHR 0xC3, CHR 0x97] @ '' 5 = 50\<newline>'',
              ''Division: 10 '' @ [CHR 0xC3, CHR 0xB7] @ '' 5 = 2.00\<newline>''],
           num1 = Some 10, num2 = Some 5, sum_v = Some 15, difference = Some 5,
           product_v = Some 50, quotient_v = Some (Finite False 2)\<rparr>,
          0) \<and>
   test2_run [10, 5] =
     Inr (\<lparr>stdin = [],
           stdout =
             [''Enter first number: '',
              ''Enter second number: '',
              ''\<newline>Results:\<newline>'',
              ''10 + 5 = 15\<newline>'',
              ''10 - 5 = 5\<newline>'',
              ''10 * 5 = 50\<newline>'',
              ''10 / 5 = 2.00\<newline>''],
           num1 = Some 10, num2 = Some 5, sum_v = Some 15, difference = Some 5,
           product_v = Some 50, division = Some (Finite False 2)\<rparr>,
          0)"
  by (simp add: test_run_pair test2_run_pair fdiv_10_5 show_f2_two show_defs)

text \<open>
  Claim C7. On the input operands 7 and 0 both programs print the sum 7, the difference 7,
  the product 0 and, in place of a quotient, the message that division by zero is not
  possible (\<open>test.c\<close>: "Cannot divide by zero!", \<open>test2.c\<close>: "Division by zero is
  undefined"); the \<open>float\<close> variable stays unassigned.
\<close>

theorem scenario_7_0:
  "test_run [7, 0] =
     Inr (\<lparr>stdin = [],
           stdout =
             [''=== Simple Calculator Program ===\<newline>'',
              ''Enter the first number: '',
              ''Enter the second number: '',
              ''\<newline>=== Results ===\<newline>'',
              ''Addition: 7 + 0 = 7\<newline>'',
              ''Subtraction: 7 - 0 = 7\<newline>'',
              ''Multiplication: 7 '' @ [CHR 0xC3, CHR 0x97] @ '' 0 = 0\<newline>'',
              ''Division: Cannot divide by zero!\<newline>''],
           num1 = Some 7, num2 = Some 0, sum_v = Some 7, difference = Some 7,
           product_v = Some 0, quotient_v = None\<rparr>,
          0) \<and>
   test2_run [7, 0] =
     Inr (\<lparr>stdin = [],
           stdout =
             [''Enter first number: '',
              ''Enter second number: '',
              ''\<newline>Results:\<newline>'',
              ''7 + 0 = 7\<newline>'',
              ''7 - 0 = 7\<newline>'',
              ''7 * 0 = 0\<newline>'',
              ''Division by zero is undefined\<newline>''],
           num1 = Some 7, num2 = Some 0, sum_v = Some 7, difference = Some 7,
           product_v = Some 0, division = None\<rparr>,
          0)"
  by (simp add: test_run_pair test2_run_pair show_defs)

text \<open>
  Claim C8. No statement after the second \<open>scanf\<close> changes \<open>num1\<close> or \<open>num2\<close>: each
  of them, run from any state, leaves both as they were. After the second \<open>scanf\<close> the
  two variables hold the integers read, they still do at the end, and every result line
  shows these two integers.
\<close>

theorem operands_unchanged_after_read:
  "(c \<in> set (drop 5 test_body) \<and> c s = Inr s' \<longrightarrow> num1 s' = num1 s \<and> num2 s' = num2 s) \<and>
   (c2 \<in> set (drop 4 test2_body) \<and> c2 t = Inr t' \<longrightarrow> num1 t' = num1 t \<and> num2 t' = num2 t) \<and>
   (\<exists>s. block (take 5 test_body) (test_start (a # b # rest)) = Inr s \<and>
        num1 s = Some a \<and> num2 s = Some b) \<and>
   (\<exists>t. block (take 4 test2_body) (test2_start (a # b # rest)) = Inr t \<and>
        num1 t = Some a \<and> num2 t = Some b) \<and>
   (\<exists>s. test_run (a # b # rest) = Inr (s, 0) \<and> num1 s = Some a \<and> num2 s = Some b \<and>
        take 3 (drop 4 (stdout s)) =
          [''Addition: '' @ show_int (sint a) @ '' + '' @ show_int (sint b) @ '' = '' @
             show_int (sint (a + b)) @ ''\<newline>'',
           ''Subtraction: '' @ show_int (sint a) @ '' - '' @ show_int (sint b) @ '' = '' @
             show_int (sint (a - b)) @ ''\<newline>'',
           ''Multiplication: '' @ show_int (sint a) @ [CHR '' '', CHR 0xC3, CHR 0x97, CHR '' ''] @
             show_int (sint b) @ '' = '' @ show_int (sint (a * b)) @ ''\<newline>''] \<and>
        drop 7 (stdout s) =
          [if b \<noteq> 0
           then ''Division: '' @ show_int (sint a) @ [CHR '' '', CHR 0xC3, CHR 0xB7, CHR '' ''] @
                show_int (sint b) @ '' = '' @
                show_f2 (fdiv (int_to_float a) (int_to_float b)) @ ''\<newline>''
           else ''Division: Cannot divide by zero!\<newline>'']) \<and>
   (\<exists>t. test2_run (a # b # rest) = Inr (t, 0) \<and> num1 t = Some a \<and> num2 t = Some b \<and>
        take 3 (drop 3 (stdout t)) =
          [show_int (sint a) @ '' + '' @ show_int (sint b) @ '' = '' @
             show_int (sint (a + b)) @ ''\<newline>'',
           show_int (sint a) @ '' - '' @ show_int (sint b) @ '' = '' @
             show_int (sint (a - b)) @ ''\<newline>'',
           show_int (sint a) @ '' * '' @ show_int (sint b) @ '' = '' @
             show_int (sint (a * b)) @ ''\<newline>''] \<and>
        drop 6 (stdout t) =
          [if b \<noteq> 0
           then show_int (sint a) @ '' / '' @ show_int (sint b) @ '' = '' @
                show_f2 (fdiv (int_to_float a) (int_to_float b)) @ ''\<newline>''
           else ''Division by zero is undefined\<newline>''])"
proof -
  have "\<exists>s. block (take 5 test_body) (test_start (a # b # rest)) = Inr s \<and>
        num1 s = Some a \<and> num2 s = Some b"
    by (simp add: test_start_def test_body_def stmt_defs)
  moreover have "\<exists>t. block (take 4 test2_body) (test2_start (a # b # rest)) = Inr t \<and>
        num1 t = Some a \<and> num2 t = Some b"
    by (simp add: test2_start_def test2_body_def stmt_defs)
  ultimately show ?thesis
    using frame_test [of c s s'] frame_test2 [of c2 t t']
    by (simp add: test_run_pair test2_run_pair)
qed

theorem operands_unchanged_after_read_witness:
  "test_body ! 5 \<in> set (drop 5 test_body) \<and>
   (test_body ! 5)
     \<lparr>stdin = [], stdout = [], num1 = Some 3, num2 = Some 4, sum_v = None,
      difference = None, product_v = None, quotient_v = None\<rparr> =
     Inr \<lparr>stdin = [], stdout = [], num1 = Some 3, num2 = Some 4, sum_v = Some 7,
      difference = None, product_v = None, quotient_v = None\<rparr> \<and>
   num1 \<lparr>stdin = [], stdout = [], num1 = Some 3, num2 = Some 4, sum_v = Some 7,
      difference = None, product_v = None, quotient_v = None\<rparr> = Some (3 :: int32) \<and>
   test2_body ! 12 \<in> set (drop 4 test2_body) \<and>
   (test2_body ! 12)
     \<lparr>stdin = [], stdout = [], num1 = Some 3, num2 = Some 0, sum_v = Some 3,
      difference = Some 3, product_v = Some 0, division = None\<rparr> =
     Inr \<lparr>stdin = [], stdout = [''Division by zero is undefined\<newline>''], num1 = Some 3,
      num2 = Some 0, sum_v = Some 3, difference = Some 3, product_v = Some 0, division = None\<rparr> \<and>
   num2 \<lparr>stdin = [], stdout = [''Division by zero is undefined\<newline>''], num1 = Some 3,
      num2 = Some 0, sum_v = Some 3, difference = Some 3, product_v = Some 0, division = None\<rparr> =
     Some (0 :: int32)"
proof -
  let ?s = "\<lparr>stdin = [], stdout = [], num1 = Some (3 :: int32), num2 = Some (4 :: int32),
      sum_v = None, difference = None, product_v = None, quotient_v = None\<rparr>"
  let ?s' = "\<lparr>stdin = [], stdout = [], num1 = Some (3 :: int32), num2 = Some (4 :: int32),
      sum_v = Some 7, difference = None, product_v = None, quotient_v = None\<rparr>"
  let ?t = "\<lparr>stdin = [], stdout = [], num1 = Some (3 :: int32), num2 = Some (0 :: int32),
      sum_v = Some 3, difference = Some 3, product_v = Some 0, division = None\<rparr>"
  let ?t' = "\<lparr>stdin = [], stdout = [''Division by zero is undefined\<newline>''],
      num1 = Some (3 :: int32), num2 = Some (0 :: int32),
      sum_v = Some 3, difference = Some 3, product_v = Some 0, division = None\<rparr>"
  have m1: "test_body ! 5 \<in> set (drop 5 test_body)"
    by (simp add: test_body_def)
  have r1: "(test_body ! 5) ?s = Inr ?s'"
    by (simp add: test_body_def stmt_defs)
  have m2: "test2_body ! 12 \<in> set (drop 4 test2_body)"
    by (simp add: test2_body_def)
  have r2: "(test2_body ! 12) ?t = Inr ?t'"
    by (simp add: test2_body_def stmt_defs)
  from operands_unchanged_after_read [of "test_body ! 5" ?s ?s' "test2_body ! 12" ?t ?t'] m1 r1 m2 r2
  have "num1 ?s' = num1 ?s \<and> num2 ?t' = num2 ?t"
    by blast
  then have "num1 ?s' = Some 3 \<and> num2 ?t' = Some 0"
    by simp
  with m1 r1 m2 r2 show ?thesis
    by blast
qed

text \<open>
  Claim C9. On no input does a run read the \<open>float\<close> variable before it is assigned:
  the assignment and the \<open>printf\<close> that reads the variable stand under the same test
  \<open>num2 != 0\<close>. With \<open>b = 0\<close> the run is defined and the variable is still unassigned at
  the end.
\<close>

theorem quotient_never_read_unassigned:
  "test_run inp \<noteq> Inl (UninitRead ''quotient'') \<and>
   test2_run inp \<noteq> Inl (UninitRead ''division'') \<and>
   (\<exists>s. test_run (a # 0 # rest) = Inr (s, 0) \<and> quotient_v s = None) \<and>
   (\<exists>s. test2_run (a # 0 # rest) = Inr (s, 0) \<and> division s = None)"
proof -
  have "test_run inp \<noteq> Inl (UninitRead ''quotient'')"
    using input_cases [of inp] by (auto simp: test_run_short test_run_pair)
  moreover have "test2_run inp \<noteq> Inl (UninitRead ''division'')"
    using input_cases [of inp] by (auto simp: test2_run_short test2_run_pair)
  moreover have "\<exists>s. test_run (a # 0 # rest) = Inr (s, 0) \<and> quotient_v s = None"
    by (simp add: test_run_pair)
  moreover have "\<exists>s. test2_run (a # 0 # rest) = Inr (s, 0) \<and> division s = None"
    by (simp add: test2_run_pair)
  ultimately show ?thesis by blast
qed

text \<open>
  Claim C10. The texts printed and the status returned are a function of the two integers
  read: whatever else standard input holds after them, the run is defined, prints the same
  texts and returns 0.
\<close>

theorem output_determined_by_operands:
  "(\<exists>out. \<forall>rest. \<exists>s. test_run (a # b # rest) = Inr (s, 0) \<and> stdout s = out) \<and>
   (\<exists>out. \<forall>rest. \<exists>s. test2_run (a # b # rest) = Inr (s, 0) \<and> stdout s = out)"
  by (simp add: test_run_pair test2_run_pair)

end
